theory Spec2Isabelle
  imports Complex_Main
begin

section \<open>Exceptions\<close>

text \<open>
  The exceptions thrown by the two classes. \<open>IndexOutOfBoundsException\<close> carries the
  offending index, \<open>BadCharException\<close> the offending string. \<open>ConfigurationError\<close> is
  the specification's name for the failure of the constructor of the allelic alphabet,
  whose body is not part of the sources.
\<close>

datatype exception =
    IndexOutOfBoundsException nat
  | NotImplementedException
  | BadCharException string
  | ConfigurationError

section \<open>CompressedVectorSiteContainer\<close>

text \<open>
  A \<open>Site\<close> is a column of the alignment: one state per sequence, a position
  (coordinate) and the alphabet it is written in. Two sites have the same content when
  their state vectors are equal, whatever their positions.
\<close>

record Site =
  content :: "int list"
  position :: int
  alphabet :: string

text \<open>
  The container: \<open>sites\<close> is the inherited \<open>VectorPositionedContainer<Site>\<close> (each
  distinct site stored once), \<open>index_vec\<close> is the member \<open>index_\<close> ("for all sites, give
  the actual position in the set"), \<open>nbSequences\<close> is the number of objects of the
  inherited \<open>VectorMappedContainer<Sequence>\<close>, \<open>containerAlphabet\<close> the alphabet of
  the container. Sizes are natural numbers: no claim below depends on the width of
  \<open>size_t\<close>.
\<close>

record CompressedVectorSiteContainer =
  sites :: "Site list"
  index_vec :: "nat list"
  nbSequences :: nat
  containerAlphabet :: string

definition getNumberOfSites :: "CompressedVectorSiteContainer \<Rightarrow> nat" where
  "getNumberOfSites c = length (index_vec c)"

definition getNumberOfUniqueSites :: "CompressedVectorSiteContainer \<Rightarrow> nat" where
  "getNumberOfUniqueSites c = length (sites c)"

definition getNumberOfSequences :: "CompressedVectorSiteContainer \<Rightarrow> nat" where
  "getNumberOfSequences c = nbSequences c"

text \<open>
  Modelled from the spec: \<open>VectorPositionedContainer<Site>::getObject\<close> is not part
  of the sources. A slot outside the stored sites is an out-of-bounds position
  (\<open>IndexOutOfRangeError\<close>); otherwise the stored site is returned.
\<close>

definition getObject :: "CompressedVectorSiteContainer \<Rightarrow> nat \<Rightarrow> exception + Site" where
  "getObject c slot =
     (if slot < length (sites c) then Inr (sites c ! slot)
      else Inl (IndexOutOfBoundsException slot))"

text \<open>
  \<open>getSite(siteIndex)\<close> returns \<open>*getObject(index_[siteIndex])\<close>. The read
  \<open>index_[siteIndex]\<close> is \<open>std::vector::operator[]\<close>, which checks nothing: for
  \<open>siteIndex \<ge> index_.size()\<close> the source has no defined behaviour, and \<open>!\<close> has no
  specified value there either.
\<close>

definition getSite :: "CompressedVectorSiteContainer \<Rightarrow> nat \<Rightarrow> exception + Site" where
  "getSite c siteIndex = getObject c (index_vec c ! siteIndex)"

text \<open>
  \<open>valueAt(sequenceIndex, elementIndex)\<close>: both indices are checked, the sequence index
  first, before the site is read. The last line is \<open>Site::operator[]\<close>, unchecked.
\<close>

definition valueAt :: "CompressedVectorSiteContainer \<Rightarrow> nat \<Rightarrow> nat \<Rightarrow> exception + int" where
  "valueAt c sequenceIndex elementIndex =
     (if sequenceIndex \<ge> getNumberOfSequences c
        then Inl (IndexOutOfBoundsException sequenceIndex)
      else if elementIndex \<ge> getNumberOfSites c
        then Inl (IndexOutOfBoundsException elementIndex)
      else (case getObject c (index_vec c ! elementIndex) of
              Inl e \<Rightarrow> Inl e
            | Inr s \<Rightarrow> Inr (content s ! sequenceIndex)))"

text \<open>
  \<open>removeSequence\<close>, by index and by name: "Implementing this function would involve
  (partially) decompressing the data", so both throw at once. A mutating method is a
  function from the container to the container after the call and the outcome.
\<close>

definition removeSequence ::
  "CompressedVectorSiteContainer \<Rightarrow> nat \<Rightarrow> CompressedVectorSiteContainer \<times> (exception + unit)" where
  "removeSequence c sequenceIndex = (c, Inl NotImplementedException)"

definition removeSequenceByName ::
  "CompressedVectorSiteContainer \<Rightarrow> string \<Rightarrow> CompressedVectorSiteContainer \<times> (exception + unit)" where
  "removeSequenceByName c name = (c, Inl NotImplementedException)"

text \<open>
  What the specification asks of row removal, for comparison only: the row is taken out
  of every stored site, the index is left alone.
\<close>

definition dropRow :: "nat \<Rightarrow> Site \<Rightarrow> Site" where
  "dropRow r s = s\<lparr>content := take r (content s) @ drop (Suc r) (content s)\<rparr>"

definition removeRowSpec :: "CompressedVectorSiteContainer \<Rightarrow> nat \<Rightarrow> CompressedVectorSiteContainer" where
  "removeRowSpec c r = c\<lparr>sites := map (dropRow r) (sites c), nbSequences := nbSequences c - 1\<rparr>"

text \<open>A small container used in the examples: two sequences, one stored site, one column.\<close>

definition exampleSite :: Site where
  "exampleSite = \<lparr>content = [1, 2], position = 1, alphabet = ''DNA''\<rparr>"

definition exampleContainer :: CompressedVectorSiteContainer where
  "exampleContainer =
     \<lparr>sites = [exampleSite], index_vec = [0], nbSequences = 2, containerAlphabet = ''DNA''\<rparr>"

text \<open>
  Modelled from the spec: the body of \<open>getSiteIndex_\<close> is not part of the sources. The
  stored sites are scanned from slot 0 and compared with the given site by content; the
  slot of the first equal one is returned, and the number of stored sites when there is
  none. \<open>findSite ss site i\<close> is the scan of the stored sites \<open>ss\<close> that begin at slot
  \<open>i\<close>.
\<close>

fun findSite :: "Site list \<Rightarrow> Site \<Rightarrow> nat \<Rightarrow> nat" where
  "findSite [] site i = i"
| "findSite (s # ss) site i =
     (if content s = content site then i else findSite ss site (Suc i))"

definition getSiteIndex :: "CompressedVectorSiteContainer \<Rightarrow> Site \<Rightarrow> nat" where
  "getSiteIndex c site = findSite (sites c) site 0"

section \<open>AllelicAlphabet\<close>

text \<open>
  The base alphabet is an external collaborator (\<open>Alphabet\<close>), taken as a parameter:
  \<open>letters\<close> are the strings of its resolved states in rank order (\<open>intToChar i\<close> is
  \<open>letters ! i\<close>, \<open>getSize\<close> their number), \<open>gapChar\<close> and \<open>unknownChar\<close> the strings
  of its gap and unknown states, \<open>stateCodingSize\<close> its \<open>getStateCodingSize()\<close>.
\<close>

record Alphabet =
  letters :: "string list"
  gapChar :: string
  unknownChar :: string
  stateCodingSize :: nat

definition Alphabet_getSize :: "Alphabet \<Rightarrow> nat" where
  "Alphabet_getSize al = length (letters al)"

text \<open>
  The allelic alphabet: the members \<open>alph_\<close>, \<open>nbAlleles_\<close> and \<open>nbUnknown_\<close>, and the
  states registered in the inherited \<open>AbstractAlphabet\<close>, each with its number and its
  string. Counts and widths are natural numbers, state numbers are integers (\<open>int\<close> in the
  source); the claims below do not depend on the 32-bit width of either.
\<close>

record AllelicAlphabet =
  alph :: Alphabet
  nbAlleles :: nat
  nbUnknown :: int
  alphabetStates :: "(int \<times> string) list"

text \<open>\<open>std::to_string\<close> of an unsigned number: its decimal digits.\<close>

definition digitChar :: "nat \<Rightarrow> char" where
  "digitChar d = ''0123456789'' ! d"

fun to_string :: "nat \<Rightarrow> string" where
  "to_string n =
     (if n < 10 then [digitChar n] else to_string (n div 10) @ [digitChar (n mod 10)])"

text \<open>
  Modelled from the spec: the body of the constructor \<open>AllelicAlphabet(alph, nbAlleles)\<close>
  is not part of the sources, so the numbers and the strings of the states it registers
  follow the specification. The gap is \<open>-1\<close>; the states of the base alphabet keep their
  numbers \<open>0 .. baseSize - 1\<close>; the state "\<open>count1\<close> copies of \<open>state1\<close>, the rest
  \<open>state2\<close>" has the number given by the pairing function
  \<open>baseSize + (rank1 * (baseSize - 1) - rank1 * (rank1 + 1) / 2 + (rank2 - rank1 - 1))
  * (nbAlleles - 1) + (count1 - 1)\<close>; the unknown state is the final code, the one after
  the \<open>baseSize + C(baseSize, 2) * (nbAlleles - 1)\<close> resolved ones. The pairing function
  is taken as it is written: over four base states it gives the pairs of ranks (0, 3) and
  (1, 2) the same offset 2.
\<close>

definition gapCode :: int where
  "gapCode = - 1"

definition pairCode :: "nat \<Rightarrow> nat \<Rightarrow> nat \<Rightarrow> nat \<Rightarrow> nat \<Rightarrow> int" where
  "pairCode sz N r1 r2 count1 =
     int sz
     + (int r1 * (int sz - 1) - (int r1 * (int r1 + 1)) div 2 + (int r2 - int r1 - 1))
       * (int N - 1)
     + (int count1 - 1)"

definition unknownCode :: "nat \<Rightarrow> nat \<Rightarrow> int" where
  "unknownCode sz N = int (sz + (sz choose 2) * (N - 1))"

text \<open>
  Modelled from the spec: the string of a state is \<open>stateSymbol1 + count1 + stateSymbol2 +
  count2\<close>, the counts in decimal. A count is written in as many characters as
  \<open>nbAlleles\<close> has digits, so that every string has the fixed width
  \<open>getStateCodingSize()\<close> checks for. The gap, a base state and the unknown state are
  written with the full count, then the gap symbol with count 0.
\<close>

definition padCount :: "nat \<Rightarrow> nat \<Rightarrow> string" where
  "padCount N n = replicate (length (to_string N) - length (to_string n)) (CHR ''0'') @ to_string n"

definition gapLabel :: "Alphabet \<Rightarrow> nat \<Rightarrow> string" where
  "gapLabel al N = gapChar al @ padCount N N @ gapChar al @ padCount N 0"

definition monoLabel :: "Alphabet \<Rightarrow> nat \<Rightarrow> nat \<Rightarrow> string" where
  "monoLabel al N i = (letters al ! i) @ padCount N N @ gapChar al @ padCount N 0"

definition polyLabel :: "Alphabet \<Rightarrow> nat \<Rightarrow> nat \<Rightarrow> nat \<Rightarrow> nat \<Rightarrow> string" where
  "polyLabel al N i j k =
     (letters al ! i) @ padCount N k @ (letters al ! j) @ padCount N (N - k)"

definition unknownLabel :: "Alphabet \<Rightarrow> nat \<Rightarrow> string" where
  "unknownLabel al N = unknownChar al @ padCount N N @ gapChar al @ padCount N 0"

definition monoStates :: "Alphabet \<Rightarrow> nat \<Rightarrow> (int \<times> string) list" where
  "monoStates al N = map (\<lambda>i. (int i, monoLabel al N i)) [0..<Alphabet_getSize al]"

definition polyStates :: "Alphabet \<Rightarrow> nat \<Rightarrow> (int \<times> string) list" where
  "polyStates al N =
     concat (map (\<lambda>i.
       concat (map (\<lambda>j.
         map (\<lambda>k. (pairCode (Alphabet_getSize al) N i j k, polyLabel al N i j k)) [1..<N])
       [Suc i..<Alphabet_getSize al]))
     [0..<Alphabet_getSize al - 1])"

text \<open>
  Modelled from the spec: the constructor fails when \<open>nbAlleles < 1\<close>; otherwise it
  registers the gap, the states of the base alphabet, for every pair of base states
  \<open>i < j\<close> the \<open>nbAlleles - 1\<close> states of the pair, and the unknown state.
  \<open>registerStates\<close> is the object it builds.
\<close>

definition registerStates :: "Alphabet \<Rightarrow> nat \<Rightarrow> AllelicAlphabet" where
  "registerStates al N =
     \<lparr>alph = al, nbAlleles = N,
      nbUnknown = unknownCode (Alphabet_getSize al) N,
      alphabetStates =
        (gapCode, gapLabel al N) # monoStates al N @ polyStates al N
        @ [(unknownCode (Alphabet_getSize al) N, unknownLabel al N)]\<rparr>"

definition newAllelicAlphabet :: "Alphabet \<Rightarrow> nat \<Rightarrow> exception + AllelicAlphabet" where
  "newAllelicAlphabet al N =
     (if N < 1 then Inl ConfigurationError else Inr (registerStates al N))"

text \<open>
  Modelled from the spec: \<open>AbstractAlphabet::getNumberOfChars\<close> and
  \<open>AbstractAlphabet::charToInt\<close> are not part of the sources. The first is the number of
  registered states; the second returns the number of the first registered state with
  the given string and fails with \<open>BadCharException\<close> (\<open>InvalidSymbolError\<close>) when there
  is none.
\<close>

definition getNumberOfChars :: "AllelicAlphabet \<Rightarrow> nat" where
  "getNumberOfChars a = length (alphabetStates a)"

definition AbstractAlphabet_charToInt :: "AllelicAlphabet \<Rightarrow> string \<Rightarrow> exception + int" where
  "AbstractAlphabet_charToInt a state =
     (case find (\<lambda>st. snd st = state) (alphabetStates a) of
        None \<Rightarrow> Inl (BadCharException state)
      | Some st \<Rightarrow> Inr (fst st))"

text \<open>The methods of the class that the header defines.\<close>

definition getStateCodingSize :: "AllelicAlphabet \<Rightarrow> nat" where
  "getStateCodingSize a = 2 * (stateCodingSize (alph a) + length (to_string (nbAlleles a)))"

definition charToInt :: "AllelicAlphabet \<Rightarrow> string \<Rightarrow> exception + int" where
  "charToInt a state =
     (if length state \<noteq> getStateCodingSize a then Inl (BadCharException state)
      else AbstractAlphabet_charToInt a state)"

definition getSize :: "AllelicAlphabet \<Rightarrow> nat" where
  "getSize a = getNumberOfChars a - 2"

definition getNumberOfTypes :: "AllelicAlphabet \<Rightarrow> nat" where
  "getNumberOfTypes a = getNumberOfChars a - 1"

definition getNbAlleles :: "AllelicAlphabet \<Rightarrow> nat" where
  "getNbAlleles a = nbAlleles a"

definition getUnknownCharacterCode :: "AllelicAlphabet \<Rightarrow> int" where
  "getUnknownCharacterCode a = nbUnknown a"

definition isUnresolved :: "AllelicAlphabet \<Rightarrow> int \<Rightarrow> bool" where
  "isUnresolved a state \<longleftrightarrow> state = getUnknownCharacterCode a"

text \<open>
  \<open>AllelicTransliterator::translate(int)\<close>: "States of the original alphabet are the
  first ones of the allelic alphabet".
\<close>

definition translate :: "int \<Rightarrow> int" where
  "translate state = state"







text \<open>The nucleotides, the base alphabet of the examples.\<close>

definition DNA :: Alphabet where
  "DNA = \<lparr>letters = [''A'', ''C'', ''G'', ''T''], gapChar = ''-'', unknownChar = ''?'',
          stateCodingSize = 1\<rparr>"

section \<open>Row removal\<close>

text \<open>
  Claim C4, as stated: for every valid row index, row removal takes that row out of every
  stored site. It fails on the example container: row 0 is valid, and after
  \<open>removeSequence\<close> the stored site still has both rows.
\<close>

theorem C4_removeRow_counterexample:
  "0 < getNumberOfSequences exampleContainer \<and>
   sites (fst (removeSequence exampleContainer 0)) \<noteq> sites (removeRowSpec exampleContainer 0)"
  by (simp add: removeSequence_def removeRowSpec_def dropRow_def exampleContainer_def
      exampleSite_def getNumberOfSequences_def)

text \<open>
  Claim C4, amended: for every container and every row index, \<open>removeSequence\<close> (by index
  or by name) throws \<open>NotImplementedException\<close> and leaves the container as it was: no
  row is removed from any stored site, the index is untouched, and nothing is re-merged.
\<close>

theorem C4_removeSequence_not_implemented:
  "removeSequence c sequenceIndex = (c, Inl NotImplementedException) \<and>
   removeSequenceByName c name = (c, Inl NotImplementedException)"
  by (simp add: removeSequence_def removeSequenceByName_def)

section \<open>Bounds checks\<close>

text \<open>
  Claim C9, as stated: every position-indexed access, row removal included, fails with
  an out-of-bounds error when the index is out of bounds. Row 7 of the two-row example
  container is out of bounds, and \<open>removeSequence\<close> throws \<open>NotImplementedException\<close>.
\<close>

theorem C9_bounds_counterexample:
  "getNumberOfSequences exampleContainer \<le> 7 \<and>
   snd (removeSequence exampleContainer 7) = Inl NotImplementedException \<and>
   snd (removeSequence exampleContainer 7) \<noteq> Inl (IndexOutOfBoundsException 7)"
  by (simp add: removeSequence_def exampleContainer_def getNumberOfSequences_def)

text \<open>
  Claim C9, amended: \<open>valueAt(sequenceIndex, elementIndex)\<close> throws
  \<open>IndexOutOfBoundsException\<close> when the sequence index is out of bounds, and when the
  sequence index is valid and the site index is out of bounds; it is a read and changes
  nothing. \<open>removeSequence\<close> throws \<open>NotImplementedException\<close> for every index and leaves
  the container unchanged.
\<close>

theorem C9_bounds_checked:
  "(getNumberOfSequences c \<le> s \<longrightarrow> valueAt c s e = Inl (IndexOutOfBoundsException s)) \<and>
   (s' < getNumberOfSequences c \<and> getNumberOfSites c \<le> e'
      \<longrightarrow> valueAt c s' e' = Inl (IndexOutOfBoundsException e')) \<and>
   removeSequence c r = (c, Inl NotImplementedException)"
  by (simp add: valueAt_def removeSequence_def)

theorem C9_bounds_checked_witness:
  "getNumberOfSequences exampleContainer \<le> 7 \<and>
   valueAt exampleContainer 7 0 = Inl (IndexOutOfBoundsException 7) \<and>
   0 < getNumberOfSequences exampleContainer \<and> getNumberOfSites exampleContainer \<le> 5 \<and>
   valueAt exampleContainer 0 5 = Inl (IndexOutOfBoundsException 5) \<and>
   removeSequence exampleContainer 7 = (exampleContainer, Inl NotImplementedException)"
  using C9_bounds_checked [of exampleContainer 7 0 0 5 7]
  by (simp add: exampleContainer_def getNumberOfSequences_def getNumberOfSites_def)

section \<open>The lookup of a site among the stored sites\<close>

lemma findSite_takeWhile:
  "findSite ss site i = i + length (takeWhile (\<lambda>s. content s \<noteq> content site) ss)"
  by (induction ss arbitrary: i) auto

lemma findSite_found:
  assumes "findSite ss site i < i + length ss"
  shows "content (ss ! (findSite ss site i - i)) = content site"
proof -
  let ?P = "\<lambda>s. content s \<noteq> content site"
  have "length (takeWhile ?P ss) < length ss"
    using assms by (simp add: findSite_takeWhile)
  then have "\<not> ?P (ss ! length (takeWhile ?P ss))"
    by (rule nth_length_takeWhile)
  then show ?thesis by (simp add: findSite_takeWhile)
qed

lemma findSite_first:
  assumes "s < length ss" "content (ss ! s) = content site"
  shows "findSite ss site i \<le> i + s"
proof -
  let ?P = "\<lambda>s. content s \<noteq> content site"
  have "length (takeWhile ?P ss) \<le> s"
  proof (rule ccontr)
    assume "\<not> length (takeWhile ?P ss) \<le> s"
    then have lt: "s < length (takeWhile ?P ss)" by simp
    then have "takeWhile ?P ss ! s \<in> set (takeWhile ?P ss)" by (rule nth_mem)
    then have "?P (takeWhile ?P ss ! s)" by (rule set_takeWhileD [THEN conjunct2])
    moreover have "takeWhile ?P ss ! s = ss ! s"
      using lt by (rule takeWhile_nth)
    ultimately have "content (ss ! s) \<noteq> content site" by simp
    then show False using assms(2) by simp
  qed
  then show ?thesis by (simp add: findSite_takeWhile)
qed

lemma findSite_absent:
  assumes "\<forall>s \<in> set ss. content s \<noteq> content site"
  shows "findSite ss site i = i + length ss"
proof -
  have "takeWhile (\<lambda>s. content s \<noteq> content site) ss = ss"
    using assms by (simp add: takeWhile_eq_all_conv)
  then have "length (takeWhile (\<lambda>s. content s \<noteq> content site) ss) = length ss"
    by (simp only:)
  then show ?thesis by (simp only: findSite_takeWhile)
qed

text \<open>
  Claim C10: when a stored site has the content of the given site, \<open>getSiteIndex_\<close>
  returns a slot of the stored sites (the first such one) whose site has that content;
  when no stored site has the content of the given site, it returns the number of stored
  sites, \<open>getNumberOfUniqueSites()\<close>.
\<close>

theorem C10_getSiteIndex:
  "(s < getNumberOfUniqueSites c \<and> content (sites c ! s) = content site \<longrightarrow>
      getSiteIndex c site \<le> s \<and> getSiteIndex c site < getNumberOfUniqueSites c \<and>
      content (sites c ! getSiteIndex c site) = content site) \<and>
   ((\<forall>s' < getNumberOfUniqueSites c. content (sites c ! s') \<noteq> content site') \<longrightarrow>
      getSiteIndex c site' = getNumberOfUniqueSites c)"
proof (intro conjI impI)
  assume a: "s < getNumberOfUniqueSites c \<and> content (sites c ! s) = content site"
  then show le: "getSiteIndex c site \<le> s"
    using findSite_first [of s "sites c" site 0]
    by (simp add: getSiteIndex_def getNumberOfUniqueSites_def)
  with a show lt: "getSiteIndex c site < getNumberOfUniqueSites c" by simp
  then have "findSite (sites c) site 0 < 0 + length (sites c)"
    by (simp add: getSiteIndex_def getNumberOfUniqueSites_def)
  then show "content (sites c ! getSiteIndex c site) = content site"
    using findSite_found [of "sites c" site 0] by (simp add: getSiteIndex_def)
next
  assume "\<forall>s' < getNumberOfUniqueSites c. content (sites c ! s') \<noteq> content site'"
  then have "\<forall>s \<in> set (sites c). content s \<noteq> content site'"
    by (auto simp: in_set_conv_nth getNumberOfUniqueSites_def)
  then show "getSiteIndex c site' = getNumberOfUniqueSites c"
    using findSite_absent [of "sites c" site' 0]
    by (simp add: getSiteIndex_def getNumberOfUniqueSites_def)
qed

theorem C10_getSiteIndex_witness:
  "0 < getNumberOfUniqueSites exampleContainer \<and>
   content (sites exampleContainer ! 0) = content (exampleSite\<lparr>position := 9\<rparr>) \<and>
   getSiteIndex exampleContainer (exampleSite\<lparr>position := 9\<rparr>) = 0 \<and>
   content (sites exampleContainer ! 0) \<noteq> content (exampleSite\<lparr>content := [3, 4]\<rparr>) \<and>
   getSiteIndex exampleContainer (exampleSite\<lparr>content := [3, 4]\<rparr>) = 1 \<and>
   getNumberOfUniqueSites exampleContainer = 1"
  using C10_getSiteIndex [of 0 exampleContainer "exampleSite\<lparr>position := 9\<rparr>"
      "exampleSite\<lparr>content := [3, 4]\<rparr>"]
  by (simp add: exampleContainer_def exampleSite_def getNumberOfUniqueSites_def)

section \<open>The length check of charToInt\<close>

text \<open>
  Claim C8: a string whose length differs from
  \<open>2 * (getStateCodingSize of the base alphabet + number of digits of nbAlleles)\<close> is
  refused by \<open>charToInt\<close> with \<open>BadCharException\<close>; no state number is returned.
\<close>

theorem C8_charToInt_length:
  assumes "length state \<noteq> 2 * (stateCodingSize (alph a) + length (to_string (nbAlleles a)))"
  shows "charToInt a state = Inl (BadCharException state)"
  using assms by (simp add: charToInt_def getStateCodingSize_def)

theorem C8_charToInt_length_witness:
  "length ''A3C'' \<noteq> 2 * (stateCodingSize (alph (registerStates DNA 4))
      + length (to_string (nbAlleles (registerStates DNA 4)))) \<and>
   charToInt (registerStates DNA 4) ''A3C'' = Inl (BadCharException ''A3C'')"
  using C8_charToInt_length [of "''A3C''" "registerStates DNA 4"]
  by (simp add: registerStates_def DNA_def)

section \<open>The number of states\<close>

lemma sum_down: "(\<Sum>i<n. n - i) = Suc n choose 2"
proof (induction n)
  case 0 show ?case by simp
next
  case (Suc n)
  have "(\<Sum>i<Suc n. Suc n - i) = (\<Sum>i<n. Suc (n - i)) + 1"
    by (simp add: Suc_diff_le)
  also have "\<dots> = (\<Sum>i<n. n - i) + n + 1"
    by (simp add: sum_Suc)
  also have "\<dots> = Suc (Suc n) choose 2"
    using Suc.IH by (simp add: numeral_2_eq_2)
  finally show ?case .
qed

lemma sum_pairs: "(\<Sum>i<sz - 1. sz - Suc i) = sz choose 2"
proof (cases sz)
  case 0 then show ?thesis by simp
next
  case (Suc m)
  then show ?thesis using sum_down [of m] by simp
qed

lemma length_polyStates:
  "length (polyStates al N) = (Alphabet_getSize al choose 2) * (N - 1)"
proof -
  define sz where "sz = Alphabet_getSize al"
  have "length (polyStates al N) = (\<Sum>i\<leftarrow>[0..<sz - 1]. (sz - Suc i) * (N - 1))"
    by (simp add: polyStates_def length_concat comp_def sum_list_triv sz_def)
  also have "\<dots> = (\<Sum>i<sz - 1. sz - Suc i) * (N - 1)"
    by (simp add: interv_sum_list_conv_sum_set_nat sum_distrib_right atLeast0LessThan)
  finally show ?thesis by (simp only: sum_pairs sz_def)
qed

lemma getNumberOfChars_registerStates:
  "getNumberOfChars (registerStates al N)
   = Alphabet_getSize al + (Alphabet_getSize al choose 2) * (N - 1) + 2"
  by (simp add: getNumberOfChars_def registerStates_def monoStates_def length_polyStates)

text \<open>
  Claim C5: for every base alphabet and every \<open>nbAlleles \<ge> 1\<close> the alphabet is
  constructed, \<open>getSize()\<close> is \<open>baseSize + C(baseSize, 2) * (nbAlleles - 1)\<close> and
  \<open>getNumberOfTypes()\<close> is \<open>getSize() + 1\<close>.
\<close>

theorem C5_size:
  assumes "1 \<le> N"
  shows "\<exists>a. newAllelicAlphabet al N = Inr a \<and>
    getSize a = Alphabet_getSize al + (Alphabet_getSize al choose 2) * (N - 1) \<and>
    getNumberOfTypes a = getSize a + 1"
  using assms
  by (simp add: newAllelicAlphabet_def getSize_def getNumberOfTypes_def
      getNumberOfChars_registerStates)

theorem C5_size_witness:
  "(1::nat) \<le> 3 \<and>
   (\<exists>a. newAllelicAlphabet DNA 3 = Inr a \<and> getSize a = 16 \<and> getNumberOfTypes a = 17)"
  using C5_size [of 3 DNA]
  by (auto simp: Alphabet_getSize_def DNA_def choose_two)

section \<open>The likelihoods of a vector of counts\<close>

















end
